theory Spec2Isabelle
  imports Main "HOL-Library.Sublist"
begin

section \<open>ORBIT e-mail automation: a shallow embedding of send_emails.py\<close>

text \<open>
  The script reads every spreadsheet of an input folder, extracts four fields from its
  key-value layout, resolves the recipient address, hands one message per file to Outlook
  or to an SMTP relay, and records one result row per file.

  Python strings are modelled as \<^typ>\<open>string\<close>. The case mappings and the whitespace
  class of Python's \<open>str\<close> are modelled on their ASCII part; every other character is
  left unchanged by \<open>lower\<close> and \<open>upper\<close> and is not whitespace.
\<close>

subsection \<open>String helpers: str.strip, str.lower, str.upper\<close>

definition is_space :: "char \<Rightarrow> bool" where
  \<comment> \<open>The ASCII characters for which \<open>str.isspace\<close> holds: tab, line feed, vertical tab,
      form feed, carriage return, the four separators 0x1C..0x1F, and the space.\<close>
  "is_space c \<longleftrightarrow>
     c \<in> set [CHR 0x09, CHR 0x0A, CHR 0x0B, CHR 0x0C, CHR 0x0D,
              CHR 0x1C, CHR 0x1D, CHR 0x1E, CHR 0x1F, CHR 0x20]"

definition strip :: "string \<Rightarrow> string" where
  "strip s = rev (dropWhile is_space (rev (dropWhile is_space s)))"

definition lower_char :: "char \<Rightarrow> char" where
  "lower_char c =
     (case map_of (zip ''ABCDEFGHIJKLMNOPQRSTUVWXYZ'' ''abcdefghijklmnopqrstuvwxyz'') c of
        None \<Rightarrow> c | Some d \<Rightarrow> d)"

definition upper_char :: "char \<Rightarrow> char" where
  "upper_char c =
     (case map_of (zip ''abcdefghijklmnopqrstuvwxyz'' ''ABCDEFGHIJKLMNOPQRSTUVWXYZ'') c of
        None \<Rightarrow> c | Some d \<Rightarrow> d)"

definition lower :: "string \<Rightarrow> string" where
  "lower s = map lower_char s"

definition upper :: "string \<Rightarrow> string" where
  "upper s = map upper_char s"

subsection \<open>Configuration (config.py)\<close>

record config =
  SEND_METHOD :: string
  SMTP_HOST :: string
  SMTP_PORT :: int
  SMTP_USE_TLS :: bool
  SMTP_USER :: string
  SMTP_PASSWORD :: string
  SMTP_FROM :: string
  EMAIL_DOMAIN :: string
  CC_EMAIL :: string

subsection \<open>Spreadsheets as data frames\<close>

text \<open>
  \<open>pd.read_excel(filepath, header=None)\<close> either raises or returns a rectangular frame.
  A cell is \<open>None\<close> when \<open>pd.notna\<close> is false for it and \<open>Some s\<close> otherwise, where \<open>s\<close>
  is \<open>str\<close> of the cell. A row of a frame has at least one column, so a row is its
  first cell \<open>row.iloc[0]\<close> together with the list of the remaining cells;
  \<open>len(row) > 1\<close> says that this list is not empty.
\<close>

type_synonym cell = "string option"
type_synonym row = "cell \<times> cell list"
type_synonym frame = "row list"

record xlsx_file =
  name :: string
  content :: "string + frame"
    \<comment> \<open>\<open>Inl e\<close>: \<open>read_excel\<close> raises an exception whose text is \<open>e\<close>\<close>

subsection \<open>The process log\<close>

datatype level = INFO | WARNING | ERROR

datatype message =
    Cannot_open string string
  | Missing_fields string string string string string
  | Win32com_not_available
  | Banner_not_found
  | SENT_to string string
  | FAILED_to string string string
  | No_files_found
  | Found_files nat
  | Processing string
  | Results_saved
  | Done_counts nat nat nat

type_synonym log_lines = "(level \<times> message) list"

subsection \<open>parse_xlsx\<close>

record parsed =
  file_name :: string
  ritm :: string
  aide_id :: string
  aide_name :: string
  to_email :: string

definition cell_text :: "cell \<Rightarrow> string" where
  \<comment> \<open>\<open>str(c).strip() if pd.notna(c) else ""\<close>\<close>
  "cell_text c = (case c of None \<Rightarrow> [] | Some s \<Rightarrow> strip s)"

definition row_key :: "row \<Rightarrow> string" where
  "row_key r = cell_text (fst r)"

definition row_val :: "row \<Rightarrow> string" where
  "row_val r = (case snd r of [] \<Rightarrow> [] | c # _ \<Rightarrow> cell_text c)"

definition keeps :: "string \<Rightarrow> string \<Rightarrow> bool" where
  \<comment> \<open>\<open>key and val and val.lower() not in ("nan", "")\<close>\<close>
  "keeps key val \<longleftrightarrow> key \<noteq> [] \<and> val \<noteq> [] \<and> lower val \<notin> set [''nan'', []]"

definition add_row :: "row \<Rightarrow> (string \<rightharpoonup> string) \<Rightarrow> (string \<rightharpoonup> string)" where
  "add_row r data =
     (let key = row_key r; val = row_val r
      in if keeps key val then data(key \<mapsto> val) else data)"

definition build_data :: "frame \<Rightarrow> (string \<rightharpoonup> string)" where
  \<comment> \<open>the loop over \<open>df.iterrows()\<close>, starting from the empty dict\<close>
  "build_data df = fold add_row df Map.empty"

definition get_or :: "(string \<rightharpoonup> string) \<Rightarrow> string \<Rightarrow> string \<Rightarrow> string" where
  \<comment> \<open>\<open>data.get(k, d)\<close>\<close>
  "get_or data k d = (case data k of None \<Rightarrow> d | Some v \<Rightarrow> v)"

definition parse_xlsx :: "config \<Rightarrow> xlsx_file \<Rightarrow> parsed option \<times> log_lines" where
  "parse_xlsx cfg f =
     (case content f of
        Inl e \<Rightarrow> (None, [(ERROR, Cannot_open (name f) e)])
      | Inr df \<Rightarrow>
          (let data = build_data df;
               ritm = get_or data ''RITM'' [];
               aide_id = get_or data ''AIDE_ID'' [];
               aide_name = get_or data ''AIDE NAME'' [];
               app_owner_raw = get_or data ''Application Owner'' []
           in if \<not> list_all (\<lambda>s. s \<noteq> []) [ritm, aide_id, aide_name, app_owner_raw]
              then (None, [(WARNING, Missing_fields (name f) ritm aide_id aide_name app_owner_raw)])
              else
                (let to_email =
                       (if CHR ''@'' \<in> set app_owner_raw then app_owner_raw
                        else app_owner_raw @ ''@'' @ EMAIL_DOMAIN cfg)
                 in (Some \<lparr>file_name = name f, ritm = ritm, aide_id = aide_id,
                           aide_name = aide_name, to_email = to_email\<rparr>, []))))"

subsection \<open>The world outside the script\<close>

text \<open>
  What the external calls do while one file is processed is an input of the model:
  whether the banner file exists (its bytes, or \<open>None\<close> when opening it raises
  \<open>FileNotFoundError\<close>), whether \<open>win32com\<close> can be imported, and for each call into
  Outlook or the SMTP library, \<open>None\<close> when it returns and \<open>Some e\<close> when it raises an
  exception whose text is \<open>e\<close>. Whether \<open>Attachments.Add\<close> raises is such an input of
  its own, since the script passes it the path without looking at the file.

  The calls that the script makes outside every \<open>try\<close> block (reading a banner file
  that exists, assembling the MIME message, writing the CSV file) are taken to return.
\<close>

record world =
  banner :: "string option"
  win32com :: bool
  com_dispatch :: "string option"
    \<comment> \<open>\<open>Dispatch("outlook.application")\<close> and \<open>CreateItem(0)\<close>\<close>
  com_attach :: "string option"
    \<comment> \<open>\<open>mail.Attachments.Add(str(BANNER_PATH))\<close> and \<open>SetProperty\<close>\<close>
  com_send :: "string option"
    \<comment> \<open>\<open>mail.Send()\<close>\<close>
  smtp_connect :: "string option"
  smtp_starttls :: "string option"
  smtp_login :: "string option"
  smtp_sendmail :: "string option"

subsection \<open>send_via_outlook\<close>

record outlook_mail =
  mail_To :: string
  mail_CC :: "string option"
  mail_Subject :: string
  mail_Attachments :: "string list"
    \<comment> \<open>the content identifiers of the attached files\<close>
  mail_HTMLBody :: string

definition send_via_outlook ::
  "config \<Rightarrow> world \<Rightarrow> parsed \<Rightarrow> string \<Rightarrow> bool \<times> outlook_mail option \<times> log_lines" where
  \<comment> \<open>The result is the returned flag, the mail item on which \<open>Send\<close> returned (if any), and
      the lines logged.\<close>
  "send_via_outlook cfg w record html_body =
     (if \<not> win32com w then (False, None, [(ERROR, Win32com_not_available)])
      else
        (let failed = (\<lambda>e. (False, None,
                         [(ERROR, FAILED_to (file_name record) (to_email record) e)]))
         in case com_dispatch w of
              Some e \<Rightarrow> failed e
            | None \<Rightarrow>
                (let mail = \<lparr>mail_To = to_email record,
                             mail_CC = (if CC_EMAIL cfg \<noteq> [] then Some (CC_EMAIL cfg) else None),
                             mail_Subject =
                               ''Welcome to ORBIT Power BI - Your Guide to Getting Started - '' @
                               ''['' @ ritm record @ '']['' @ aide_id record @ '']['' @
                               aide_name record @ '']'',
                             mail_Attachments = [],
                             mail_HTMLBody = []\<rparr>
                 in case com_attach w of
                      Some e \<Rightarrow> failed e
                    | None \<Rightarrow>
                        (let mail = mail\<lparr>mail_Attachments := [''orbit_banner''],
                                          mail_HTMLBody := html_body\<rparr>
                         in case com_send w of
                              Some e \<Rightarrow> failed e
                            | None \<Rightarrow>
                                (True, Some mail,
                                 [(INFO, SENT_to (file_name record) (to_email record))])))))"

subsection \<open>send_via_smtp\<close>

record image_part =
  content_id :: string
  filename :: string
  payload :: string

record mime_message =
  msg_From :: string
  msg_To :: string
  msg_Subject :: string
  msg_Cc :: "string option"
  msg_html :: string
  msg_image :: "image_part option"

record smtp_handoff =
  env_from :: string
  env_recipients :: "string list"
  env_msg :: mime_message

definition smtp_session :: "config \<Rightarrow> world \<Rightarrow> string option" where
  \<comment> \<open>The body of the \<open>with smtplib.SMTP(...)\<close> block: the text of the first exception
      raised, if any.\<close>
  "smtp_session cfg w =
     (case smtp_connect w of
        Some e \<Rightarrow> Some e
      | None \<Rightarrow>
          (case (if SMTP_USE_TLS cfg then smtp_starttls w else None) of
             Some e \<Rightarrow> Some e
           | None \<Rightarrow>
               (case (if SMTP_USER cfg \<noteq> [] \<and> SMTP_PASSWORD cfg \<noteq> []
                      then smtp_login w else None) of
                  Some e \<Rightarrow> Some e
                | None \<Rightarrow> smtp_sendmail w)))"

definition send_via_smtp ::
  "config \<Rightarrow> world \<Rightarrow> parsed \<Rightarrow> string \<Rightarrow> bool \<times> smtp_handoff option \<times> log_lines" where
  \<comment> \<open>The result is the returned flag, what \<open>sendmail\<close> accepted (if it did), and the
      lines logged.\<close>
  "send_via_smtp cfg w record html_body =
     (let subject =
            ''Welcome to ORBIT Power BI - Your Guide to Getting Started - '' @
            ''['' @ ritm record @ '']['' @ aide_id record @ '']['' @ aide_name record @ '']'';
          msg = \<lparr>msg_From = SMTP_FROM cfg, msg_To = to_email record, msg_Subject = subject,
                 msg_Cc = (if CC_EMAIL cfg \<noteq> [] then Some (CC_EMAIL cfg) else None),
                 msg_html = html_body, msg_image = None\<rparr>;
          (msg, l1) =
            (case banner w of
               Some bytes \<Rightarrow>
                 (msg\<lparr>msg_image := Some \<lparr>content_id = ''<orbit_banner>'',
                                            filename = ''orbit_banner.jpeg'',
                                            payload = bytes\<rparr>\<rparr>, [])
             | None \<Rightarrow> (msg, [(WARNING, Banner_not_found)]))
      in case smtp_session cfg w of
           None \<Rightarrow>
             (let recipients =
                    [to_email record] @ (if CC_EMAIL cfg \<noteq> [] then [CC_EMAIL cfg] else [])
              in (True,
                  Some \<lparr>env_from = SMTP_FROM cfg, env_recipients = recipients, env_msg = msg\<rparr>,
                  l1 @ [(INFO, SENT_to (file_name record) (to_email record))]))
         | Some e \<Rightarrow>
             (False, None,
              l1 @ [(ERROR, FAILED_to (file_name record) (to_email record) e)]))"

subsection \<open>main\<close>

record outcome = parsed +
  status :: string
  error :: string

datatype call =
    Via_outlook parsed "outlook_mail option"
  | Via_smtp parsed "smtp_handoff option"

record run_state =
  results :: "outcome list"
  calls :: "call list"
    \<comment> \<open>every invocation of a transport, with what it handed over\<close>
  logged :: log_lines
  csv :: "outcome list option"
    \<comment> \<open>the rows written by \<open>write_csv_log\<close>, \<open>None\<close> while it has not run\<close>

definition initial :: run_state where
  "initial = \<lparr>results = [], calls = [], logged = [], csv = None\<rparr>"

definition with_status :: "parsed \<Rightarrow> string \<Rightarrow> string \<Rightarrow> outcome" where
  \<comment> \<open>\<open>{**record, "status": s, "error": e}\<close>\<close>
  "with_status record s e =
     \<lparr>file_name = file_name record, ritm = ritm record, aide_id = aide_id record,
      aide_name = aide_name record, to_email = to_email record, status = s, error = e\<rparr>"

definition loop_body ::
  "config \<Rightarrow> string \<Rightarrow> xlsx_file \<times> world \<Rightarrow> run_state \<Rightarrow> run_state" where
  "loop_body cfg html_body fw st =
     (let xlsx_path = fst fw; w = snd fw;
          st = st\<lparr>logged := logged st @ [(INFO, Processing (name xlsx_path))]\<rparr>;
          (record, l) = parse_xlsx cfg xlsx_path;
          st = st\<lparr>logged := logged st @ l\<rparr>
      in case record of
           None \<Rightarrow>
             st\<lparr>results := results st @
                   [\<lparr>file_name = name xlsx_path, ritm = [], aide_id = [], aide_name = [],
                     to_email = [], status = ''SKIPPED'',
                     error = ''Missing required fields''\<rparr>]\<rparr>
         | Some record \<Rightarrow>
             (let (ok, st) =
                    (if upper (SEND_METHOD cfg) = ''OUTLOOK''
                     then (let (ok, m, l) = send_via_outlook cfg w record html_body
                           in (ok, st\<lparr>calls := calls st @ [Via_outlook record m],
                                       logged := logged st @ l\<rparr>))
                     else (let (ok, m, l) = send_via_smtp cfg w record html_body
                           in (ok, st\<lparr>calls := calls st @ [Via_smtp record m],
                                       logged := logged st @ l\<rparr>)))
              in st\<lparr>results := results st @
                      [with_status record (if ok then ''SENT'' else ''FAILED'')
                                          (if ok then [] else ''See log'')]\<rparr>))"

definition count_status :: "string \<Rightarrow> outcome list \<Rightarrow> nat" where
  \<comment> \<open>\<open>sum(1 for r in results if r["status"] == s)\<close>\<close>
  "count_status s rs = sum_list (map (\<lambda>r. 1) (filter (\<lambda>r. status r = s) rs))"

definition main :: "config \<Rightarrow> string \<Rightarrow> (xlsx_file \<times> world) list \<Rightarrow> run_state" where
  \<comment> \<open>\<open>xlsx_files\<close> is the sorted listing of the input folder, each file paired with the
      world at the time it is processed; \<open>html_body\<close> is the text that
      \<open>build_html_body()\<close> returns.\<close>
  "main cfg html_body xlsx_files =
     (if xlsx_files = [] then initial\<lparr>logged := [(WARNING, No_files_found)]\<rparr>
      else
        (let st = initial\<lparr>logged := [(INFO, Found_files (length xlsx_files))]\<rparr>;
             st = fold (loop_body cfg html_body) xlsx_files st;
             st = st\<lparr>csv := Some (results st), logged := logged st @ [(INFO, Results_saved)]\<rparr>;
             sent = count_status ''SENT'' (results st);
             failed = count_status ''FAILED'' (results st);
             skipped = count_status ''SKIPPED'' (results st)
         in st\<lparr>logged := logged st @ [(INFO, Done_counts sent failed skipped)]\<rparr>))"

subsection \<open>Vocabulary of the specification\<close>

definition required_keys :: "string list" where
  "required_keys = [''RITM'', ''AIDE_ID'', ''AIDE NAME'', ''Application Owner'']"

definition skipped_row :: "xlsx_file \<Rightarrow> outcome" where
  \<comment> \<open>the row that \<open>main\<close> appends when \<open>parse_xlsx\<close> returns \<open>None\<close>\<close>
  "skipped_row f =
     \<lparr>file_name = name f, ritm = [], aide_id = [], aide_name = [], to_email = [],
      status = ''SKIPPED'', error = ''Missing required fields''\<rparr>"






subsection \<open>Concrete inputs\<close>

definition example_cfg :: "string \<Rightarrow> config" where
  "example_cfg method =
     \<lparr>SEND_METHOD = method, SMTP_HOST = ''smtp.office365.com'', SMTP_PORT = 587,
      SMTP_USE_TLS = True, SMTP_USER = ''user@corp.com'', SMTP_PASSWORD = ''secret'',
      SMTP_FROM = ''user@corp.com'', EMAIL_DOMAIN = ''corp.com'',
      CC_EMAIL = ''cc@corp.com''\<rparr>"

definition example_frame :: "string \<Rightarrow> frame" where
  "example_frame owner =
     [(Some ''RITM'', [Some ''REQ1'']),
      (Some ''AIDE_ID'', [Some '' A100 '']),
      (Some ''AIDE NAME'', [Some ''Finance App'']),
      (Some ''Application Owner'', [Some owner])]"

definition example_file :: "string \<Rightarrow> xlsx_file" where
  "example_file owner = \<lparr>name = ''a.xlsx'', content = Inr (example_frame owner)\<rparr>"

definition example_record :: parsed where
  "example_record =
     \<lparr>file_name = ''a.xlsx'', ritm = ''REQ1'', aide_id = ''A100'',
      aide_name = ''Finance App'', to_email = ''nkelly13@corp.com''\<rparr>"

definition file_without :: "string \<Rightarrow> xlsx_file" where
  \<comment> \<open>the example sheet without the row of one key\<close>
  "file_without k =
     \<lparr>name = ''a.xlsx'',
      content = Inr (filter (\<lambda>r. fst r \<noteq> Some k) (example_frame ''nkelly13''))\<rparr>"

definition corrupt_file :: xlsx_file where
  "corrupt_file = \<lparr>name = ''a.xlsx'', content = Inl ''File is not a zip file''\<rparr>"



definition example_html :: string where
  "example_html = ''<html>cid:orbit_banner</html>''"

definition good_world :: world where
  "good_world =
     \<lparr>banner = Some ''JFIF'', win32com = True, com_dispatch = None, com_attach = None,
      com_send = None, smtp_connect = None, smtp_starttls = None, smtp_login = None,
      smtp_sendmail = None\<rparr>"

definition smtp_down_world :: world where
  "smtp_down_world = good_world\<lparr>smtp_connect := Some ''Connection refused''\<rparr>"

definition no_outlook_world :: world where
  "no_outlook_world = good_world\<lparr>win32com := False\<rparr>"

definition no_banner_world :: world where
  \<comment> \<open>the banner file is absent, so opening it raises \<open>FileNotFoundError\<close> and Outlook's
      \<open>Attachments.Add\<close> raises for the path that names no file\<close>
  "no_banner_world =
     good_world\<lparr>banner := None, com_attach := Some ''Cannot find this file''\<rparr>"

definition example_subject :: string where
  "example_subject =
     ''Welcome to ORBIT Power BI - Your Guide to Getting Started - [REQ1][A100][Finance App]''"

definition example_envelope :: "image_part option \<Rightarrow> smtp_handoff" where
  "example_envelope img =
     \<lparr>env_from = ''user@corp.com'',
      env_recipients = [''nkelly13@corp.com'', ''cc@corp.com''],
      env_msg = \<lparr>msg_From = ''user@corp.com'', msg_To = ''nkelly13@corp.com'',
                 msg_Subject = example_subject, msg_Cc = Some ''cc@corp.com'',
                 msg_html = example_html, msg_image = img\<rparr>\<rparr>"

definition example_banner :: image_part where
  "example_banner =
     \<lparr>content_id = ''<orbit_banner>'', filename = ''orbit_banner.jpeg'', payload = ''JFIF''\<rparr>"

definition example_mail :: outlook_mail where
  "example_mail =
     \<lparr>mail_To = ''nkelly13@corp.com'', mail_CC = Some ''cc@corp.com'',
      mail_Subject = example_subject, mail_Attachments = [''orbit_banner''],
      mail_HTMLBody = example_html\<rparr>"


section \<open>Properties\<close>

subsection \<open>Evaluating the helpers\<close>

lemmas string_helpers =
  strip_def is_space_def lower_def lower_char_def upper_def upper_char_def

lemmas frame_helpers =
  build_data_def add_row_def row_key_def row_val_def cell_text_def keeps_def get_or_def

lemma upper_examples:
  "upper ''OUTLOOK'' = ''OUTLOOK''" "upper ''outlook'' = ''OUTLOOK''"
  "upper ''Outlook'' = ''OUTLOOK''" "upper ''SMTP'' \<noteq> ''OUTLOOK''"
  "upper ''OUTLOK'' \<noteq> ''OUTLOOK''" "upper ''sendmail'' \<noteq> ''OUTLOOK''"
  "upper [] \<noteq> ''OUTLOOK''"
  by (simp_all add: upper_def upper_char_def)

lemma parse_example:
  "parse_xlsx (example_cfg m) (example_file ''nkelly13'') = (Some example_record, [])"
  by (simp add: parse_xlsx_def example_file_def example_frame_def example_cfg_def
      example_record_def string_helpers frame_helpers)


lemma data_without_AIDE_ID:
  "map (\<lambda>k. get_or (build_data (filter (\<lambda>r. fst r \<noteq> Some ''AIDE_ID'')
                                     (example_frame ''nkelly13''))) k []) required_keys =
     [''REQ1'', [], ''Finance App'', ''nkelly13'']"
  by (simp add: example_frame_def required_keys_def string_helpers frame_helpers)

lemma data_without_RITM:
  "map (\<lambda>k. get_or (build_data (filter (\<lambda>r. fst r \<noteq> Some ''RITM'')
                                     (example_frame ''nkelly13''))) k []) required_keys =
     [[], ''A100'', ''Finance App'', ''nkelly13'']"
  by (simp add: example_frame_def required_keys_def string_helpers frame_helpers)

subsection \<open>The loop of \<open>main\<close>, file by file\<close>

lemma loop_body_results:
  "results (loop_body cfg html fw st) = results st @ results (loop_body cfg html fw initial)"
  by (simp add: loop_body_def initial_def Let_def split: prod.splits option.splits)

lemma loop_body_calls:
  "calls (loop_body cfg html fw st) = calls st @ calls (loop_body cfg html fw initial)"
  by (simp add: loop_body_def initial_def Let_def split: prod.splits option.splits)

lemma fold_loop_body_results:
  "results (fold (loop_body cfg html) jobs st) =
     results st @ concat (map (\<lambda>fw. results (loop_body cfg html fw initial)) jobs)"
proof (induction jobs arbitrary: st)
  case Nil
  show ?case by simp
next
  case (Cons fw jobs)
  show ?case
    by (simp add: Cons.IH loop_body_results [of cfg html fw st])
qed

lemma fold_loop_body_calls:
  "calls (fold (loop_body cfg html) jobs st) =
     calls st @ concat (map (\<lambda>fw. calls (loop_body cfg html fw initial)) jobs)"
proof (induction jobs arbitrary: st)
  case Nil
  show ?case by simp
next
  case (Cons fw jobs)
  show ?case
    by (simp add: Cons.IH loop_body_calls [of cfg html fw st])
qed

lemma main_results:
  "results (main cfg html jobs) =
     concat (map (\<lambda>fw. results (loop_body cfg html fw initial)) jobs)"
  by (simp add: main_def Let_def fold_loop_body_results initial_def)

lemma main_calls:
  "calls (main cfg html jobs) =
     concat (map (\<lambda>fw. calls (loop_body cfg html fw initial)) jobs)"
  by (simp add: main_def Let_def fold_loop_body_calls initial_def)

lemma main_results_split:
  "results (main cfg html (before @ fw # after)) =
     results (main cfg html before) @ results (loop_body cfg html fw initial) @
     results (main cfg html after)"
  by (simp add: main_results)

lemma main_calls_split:
  "calls (main cfg html (before @ fw # after)) =
     calls (main cfg html before) @ calls (loop_body cfg html fw initial) @
     calls (main cfg html after)"
  by (simp add: main_calls)

lemma main_Nil: "results (main cfg html []) = []" "calls (main cfg html []) = []"
  by (simp_all add: main_def initial_def)

lemma loop_body_None:
  "fst (parse_xlsx cfg f) = None \<Longrightarrow>
     results (loop_body cfg html (f, w) initial) = [skipped_row f] \<and>
     calls (loop_body cfg html (f, w) initial) = []"
  by (cases "parse_xlsx cfg f") (simp add: loop_body_def initial_def Let_def skipped_row_def)

lemma loop_body_Some:
  "fst (parse_xlsx cfg f) = Some r \<Longrightarrow>
     results (loop_body cfg html (f, w) initial) =
       [if upper (SEND_METHOD cfg) = ''OUTLOOK''
        then (let ok = fst (send_via_outlook cfg w r html)
              in with_status r (if ok then ''SENT'' else ''FAILED'')
                   (if ok then [] else ''See log''))
        else (let ok = fst (send_via_smtp cfg w r html)
              in with_status r (if ok then ''SENT'' else ''FAILED'')
                   (if ok then [] else ''See log''))] \<and>
     calls (loop_body cfg html (f, w) initial) =
       [if upper (SEND_METHOD cfg) = ''OUTLOOK''
        then Via_outlook r (fst (snd (send_via_outlook cfg w r html)))
        else Via_smtp r (fst (snd (send_via_smtp cfg w r html)))]"
  by (cases "parse_xlsx cfg f")
     (simp add: loop_body_def initial_def Let_def split: prod.splits)

lemma parse_None_iff:
  "content f = Inr df \<Longrightarrow>
     fst (parse_xlsx cfg f) = None \<longleftrightarrow>
     (\<exists>k \<in> set required_keys. get_or (build_data df) k [] = [])"
  by (auto simp add: parse_xlsx_def Let_def required_keys_def)

lemma parse_unreadable:
  "content f = Inl e \<Longrightarrow> parse_xlsx cfg f = (None, [(ERROR, Cannot_open (name f) e)])"
  by (simp add: parse_xlsx_def)








subsection \<open>The mapping built from the rows\<close>






subsection \<open>Recipient resolution\<close>



subsection \<open>All four fields or no record\<close>



subsection \<open>Evaluating the transports on the example record\<close>

lemma smtp_session_example:
  "smtp_session (example_cfg m) good_world = None"
  "smtp_session (example_cfg m) no_banner_world = None"
  "smtp_session (example_cfg m) no_outlook_world = None"
  "smtp_session (example_cfg m) smtp_down_world = Some ''Connection refused''"
  by (simp_all add: smtp_session_def good_world_def no_banner_world_def no_outlook_world_def
      smtp_down_world_def example_cfg_def)

lemma send_via_smtp_example:
  "send_via_smtp (example_cfg m) good_world example_record example_html =
     (True, Some (example_envelope (Some example_banner)),
      [(INFO, SENT_to ''a.xlsx'' ''nkelly13@corp.com'')])"
  by (simp add: send_via_smtp_def smtp_session_example Let_def)
     (simp add: good_world_def example_cfg_def example_record_def example_envelope_def
      example_banner_def example_subject_def)

lemma send_via_outlook_example:
  "send_via_outlook (example_cfg m) good_world example_record example_html =
     (True, Some example_mail, [(INFO, SENT_to ''a.xlsx'' ''nkelly13@corp.com'')])"
  by (simp add: send_via_outlook_def Let_def good_world_def example_cfg_def example_record_def
      example_mail_def example_subject_def)

lemma run_example_smtp:
  "results (main (example_cfg ''SMTP'') example_html [(example_file ''nkelly13'', good_world)]) =
     [with_status example_record ''SENT'' []]"
  "calls (main (example_cfg ''SMTP'') example_html [(example_file ''nkelly13'', good_world)]) =
     [Via_smtp example_record (Some (example_envelope (Some example_banner)))]"
proof -
  have p: "fst (parse_xlsx (example_cfg ''SMTP'') (example_file ''nkelly13'')) =
      Some example_record"
    by (simp add: parse_example)
  have m: "upper (SEND_METHOD (example_cfg ''SMTP'')) \<noteq> ''OUTLOOK''"
    by (simp add: example_cfg_def upper_examples)
  from loop_body_Some [OF p, of example_html good_world] m
  show "results (main (example_cfg ''SMTP'') example_html
          [(example_file ''nkelly13'', good_world)]) = [with_status example_record ''SENT'' []]"
    and "calls (main (example_cfg ''SMTP'') example_html
          [(example_file ''nkelly13'', good_world)]) =
        [Via_smtp example_record (Some (example_envelope (Some example_banner)))]"
    by (simp_all add: main_results main_calls send_via_smtp_example)
qed

subsection \<open>The key and the value of a row\<close>




subsection \<open>Files that yield no record\<close>

lemma parse_file_without:
  "fst (parse_xlsx cfg (file_without ''AIDE_ID'')) = None"
  "fst (parse_xlsx cfg (file_without ''RITM'')) = None"
proof -
  have "content (file_without ''AIDE_ID'') =
      Inr (filter (\<lambda>r. fst r \<noteq> Some ''AIDE_ID'') (example_frame ''nkelly13''))"
    by (simp add: file_without_def)
  from parse_None_iff [OF this, of cfg] data_without_AIDE_ID
  show "fst (parse_xlsx cfg (file_without ''AIDE_ID'')) = None"
    by (simp add: required_keys_def)
next
  have "content (file_without ''RITM'') =
      Inr (filter (\<lambda>r. fst r \<noteq> Some ''RITM'') (example_frame ''nkelly13''))"
    by (simp add: file_without_def)
  from parse_None_iff [OF this, of cfg] data_without_RITM
  show "fst (parse_xlsx cfg (file_without ''RITM'')) = None"
    by (simp add: required_keys_def)
qed

lemma run_skipped:
  "fst (parse_xlsx cfg f) = None \<Longrightarrow>
     results (main cfg html (before @ (f, w) # after)) =
       results (main cfg html before) @ [skipped_row f] @ results (main cfg html after) \<and>
     calls (main cfg html (before @ (f, w) # after)) =
       calls (main cfg html before) @ calls (main cfg html after)"
  using loop_body_None [of cfg f html w]
  by (simp add: main_results_split main_calls_split)




text \<open>
  C8 as stated: a document that cannot be opened is marked with an error distinct from
  the one of a document with missing fields. The run over a corrupt file and the run
  over a sheet of the same name without the row \<open>AIDE_ID\<close> record the same outcome row.
\<close>

theorem open_failure_distinct_counterexample:
  "content corrupt_file = Inl ''File is not a zip file'' \<and>
   content (file_without ''AIDE_ID'') =
     Inr (filter (\<lambda>r. fst r \<noteq> Some ''AIDE_ID'') (example_frame ''nkelly13'')) \<and>
   results (main (example_cfg ''SMTP'') example_html [(corrupt_file, good_world)]) =
     results (main (example_cfg ''SMTP'') example_html [(file_without ''AIDE_ID'', good_world)]) \<and>
   map error (results (main (example_cfg ''SMTP'') example_html [(corrupt_file, good_world)])) =
     [''Missing required fields'']"
proof -
  have "fst (parse_xlsx (example_cfg ''SMTP'') corrupt_file) = None"
    by (simp add: parse_xlsx_def corrupt_file_def)
  from loop_body_None [OF this, of example_html good_world]
    loop_body_None [OF parse_file_without(1), of "example_cfg ''SMTP''" example_html good_world]
  show ?thesis
    by (simp add: main_results skipped_row_def corrupt_file_def file_without_def)
qed

text \<open>
  C8, amended. For every input document that cannot be opened or parsed, wherever it
  stands in the run, the outcome of that document has blank record fields, the status
  \<open>SKIPPED\<close> and the error text \<open>Missing required fields\<close>, the same row as for a
  document with missing fields, and no transport is invoked for it. The two kinds of
  failure differ only in the line that \<open>parse_xlsx\<close> writes to the process log, which
  for an open failure is an error with the file name and the text of the exception.
\<close>

theorem open_failure_skipped:
  "content f = Inl e \<Longrightarrow>
     results (main cfg html (before @ (f, w) # after)) =
       results (main cfg html before) @
       [\<lparr>file_name = name f, ritm = [], aide_id = [], aide_name = [], to_email = [],
         status = ''SKIPPED'', error = ''Missing required fields''\<rparr>] @
       results (main cfg html after) \<and>
     calls (main cfg html (before @ (f, w) # after)) =
       calls (main cfg html before) @ calls (main cfg html after) \<and>
     parse_xlsx cfg f = (None, [(ERROR, Cannot_open (name f) e)])"
proof -
  assume c: "content f = Inl e"
  then have p: "parse_xlsx cfg f = (None, [(ERROR, Cannot_open (name f) e)])"
    by (rule parse_unreadable)
  then have "fst (parse_xlsx cfg f) = None" by simp
  from run_skipped [OF this] p show ?thesis by (simp add: skipped_row_def)
qed

theorem open_failure_skipped_witness:
  "content corrupt_file = Inl ''File is not a zip file'' \<and>
   results (main (example_cfg ''SMTP'') example_html
              [(corrupt_file, good_world), (example_file ''nkelly13'', good_world)]) =
     [\<lparr>file_name = ''a.xlsx'', ritm = [], aide_id = [], aide_name = [], to_email = [],
       status = ''SKIPPED'', error = ''Missing required fields''\<rparr>,
      with_status example_record ''SENT'' []] \<and>
   calls (main (example_cfg ''SMTP'') example_html
            [(corrupt_file, good_world), (example_file ''nkelly13'', good_world)]) =
     [Via_smtp example_record (Some (example_envelope (Some example_banner)))] \<and>
   parse_xlsx (example_cfg ''SMTP'') corrupt_file =
     (None, [(ERROR, Cannot_open ''a.xlsx'' ''File is not a zip file'')])"
proof -
  have c: "content corrupt_file = Inl ''File is not a zip file''"
    and n: "name corrupt_file = ''a.xlsx''"
    by (simp_all add: corrupt_file_def)
  from open_failure_skipped [OF c, of "example_cfg ''SMTP''" example_html "[]" good_world
      "[(example_file ''nkelly13'', good_world)]"]
  show ?thesis using c n by (simp add: main_Nil run_example_smtp)
qed

subsection \<open>The subject line\<close>

text \<open>
  C5. Both transports build the same subject for a record: the fixed prefix followed by
  \<open>[ticket_id][case_id][case_name]\<close>. It is the subject of every mail item that Outlook
  sends and of every message that the SMTP relay accepts.
\<close>

theorem subject_format:
  "(fst (snd (send_via_outlook cfg w r html)) = Some m \<longrightarrow>
      mail_Subject m =
        ''Welcome to ORBIT Power BI - Your Guide to Getting Started - '' @
        ''['' @ ritm r @ '']['' @ aide_id r @ '']['' @ aide_name r @ '']'') \<and>
   (fst (snd (send_via_smtp cfg' w' r html')) = Some h \<longrightarrow>
      msg_Subject (env_msg h) =
        ''Welcome to ORBIT Power BI - Your Guide to Getting Started - '' @
        ''['' @ ritm r @ '']['' @ aide_id r @ '']['' @ aide_name r @ '']'')"
  by (auto simp add: send_via_outlook_def send_via_smtp_def Let_def
      split: if_splits option.splits prod.splits)

theorem subject_format_witness:
  "fst (snd (send_via_outlook (example_cfg ''OUTLOOK'') good_world example_record example_html)) =
     Some example_mail \<and>
   mail_Subject example_mail =
     ''Welcome to ORBIT Power BI - Your Guide to Getting Started - [REQ1][A100][Finance App]'' \<and>
   fst (snd (send_via_smtp (example_cfg ''SMTP'') good_world example_record example_html)) =
     Some (example_envelope (Some example_banner)) \<and>
   msg_Subject (env_msg (example_envelope (Some example_banner))) =
     ''Welcome to ORBIT Power BI - Your Guide to Getting Started - [REQ1][A100][Finance App]'' \<and>
   ritm example_record = ''REQ1'' \<and> aide_id example_record = ''A100'' \<and>
   aide_name example_record = ''Finance App''"
proof -
  have o: "fst (snd (send_via_outlook (example_cfg ''OUTLOOK'') good_world example_record
      example_html)) = Some example_mail"
    by (simp add: send_via_outlook_example)
  have s: "fst (snd (send_via_smtp (example_cfg ''SMTP'') good_world example_record
      example_html)) = Some (example_envelope (Some example_banner))"
    by (simp add: send_via_smtp_example)
  have r: "ritm example_record = ''REQ1''" "aide_id example_record = ''A100''"
    "aide_name example_record = ''Finance App''"
    by (simp_all add: example_record_def)
  from subject_format [where cfg = "example_cfg ''OUTLOOK''" and w = good_world
      and r = example_record and html = example_html and m = example_mail
      and cfg' = "example_cfg ''SMTP''" and w' = good_world and html' = example_html
      and h = "example_envelope (Some example_banner)"] o s r
  show ?thesis by simp
qed

subsection \<open>One outcome per file\<close>





subsection \<open>A transport failure does not stop the run\<close>




subsection \<open>Which transport is used\<close>



subsection \<open>The banner file is absent\<close>

lemma smtp_without_banner:
  "banner w = None \<Longrightarrow> smtp_session cfg w = None \<Longrightarrow>
     send_via_smtp cfg w r html =
       (True,
        Some \<lparr>env_from = SMTP_FROM cfg,
              env_recipients =
                [to_email r] @ (if CC_EMAIL cfg \<noteq> [] then [CC_EMAIL cfg] else []),
              env_msg =
                \<lparr>msg_From = SMTP_FROM cfg, msg_To = to_email r,
                 msg_Subject =
                   ''Welcome to ORBIT Power BI - Your Guide to Getting Started - '' @
                   ''['' @ ritm r @ '']['' @ aide_id r @ '']['' @ aide_name r @ '']'',
                 msg_Cc = (if CC_EMAIL cfg \<noteq> [] then Some (CC_EMAIL cfg) else None),
                 msg_html = html, msg_image = None\<rparr>\<rparr>,
        [(WARNING, Banner_not_found), (INFO, SENT_to (file_name r) (to_email r))])"
  by (simp add: send_via_smtp_def Let_def)

lemma outlook_sends_only_with_attachment:
  "fst (snd (send_via_outlook cfg w r html)) = Some m \<Longrightarrow>
     com_attach w = None \<and> mail_Attachments m = [''orbit_banner'']"
  by (auto simp add: send_via_outlook_def Let_def split: if_splits option.splits)

lemma outlook_attach_raises:
  "com_attach w = Some e \<Longrightarrow>
     fst (send_via_outlook cfg w r html) = False \<and>
     fst (snd (send_via_outlook cfg w r html)) = None"
  by (simp add: send_via_outlook_def Let_def split: option.splits)

text \<open>
  C9 on the code. The banner file is absent: opening it raises \<open>FileNotFoundError\<close>, and
  Outlook's \<open>Attachments.Add\<close> raises for the path. With \<open>SEND_METHOD\<close> \<open>SMTP\<close> the
  exception of the open is caught, and the relay accepts the message without an image
  part: the file is \<open>SENT\<close>. With \<open>SEND_METHOD\<close> \<open>OUTLOOK\<close> nothing looks at the file before
  \<open>Attachments.Add\<close> is called; its exception ends the attempt, no mail item is sent and
  the file is \<open>FAILED\<close>. The two transports do not treat the absent banner alike.
\<close>

theorem absent_banner_outlook_fails:
  "banner no_banner_world = None \<and>
   com_attach no_banner_world = Some ''Cannot find this file'' \<and>
   results (main (example_cfg ''SMTP'') example_html
              [(example_file ''nkelly13'', no_banner_world)]) =
     [with_status example_record ''SENT'' []] \<and>
   calls (main (example_cfg ''SMTP'') example_html
            [(example_file ''nkelly13'', no_banner_world)]) =
     [Via_smtp example_record (Some (example_envelope None))] \<and>
   results (main (example_cfg ''OUTLOOK'') example_html
              [(example_file ''nkelly13'', no_banner_world)]) =
     [with_status example_record ''FAILED'' ''See log''] \<and>
   calls (main (example_cfg ''OUTLOOK'') example_html
            [(example_file ''nkelly13'', no_banner_world)]) =
     [Via_outlook example_record None]"
proof -
  have w: "banner no_banner_world = None"
    "com_attach no_banner_world = Some ''Cannot find this file''"
    by (simp_all add: no_banner_world_def good_world_def)
  have p: "fst (parse_xlsx (example_cfg ''SMTP'') (example_file ''nkelly13'')) =
      Some example_record"
    and p': "fst (parse_xlsx (example_cfg ''OUTLOOK'') (example_file ''nkelly13'')) =
      Some example_record"
    by (simp_all add: parse_example)
  have u: "upper (SEND_METHOD (example_cfg ''SMTP'')) \<noteq> ''OUTLOOK''"
    and u': "upper (SEND_METHOD (example_cfg ''OUTLOOK'')) = ''OUTLOOK''"
    by (simp_all add: example_cfg_def upper_def upper_char_def)
  have s: "send_via_smtp (example_cfg ''SMTP'') no_banner_world example_record example_html =
      (True, Some (example_envelope None),
       [(WARNING, Banner_not_found), (INFO, SENT_to ''a.xlsx'' ''nkelly13@corp.com'')])"
    using smtp_without_banner [OF w(1) smtp_session_example(2), of "''SMTP''" example_record
        example_html]
    by (simp add: example_cfg_def example_record_def example_envelope_def example_subject_def)
  from loop_body_Some [OF p, of example_html no_banner_world] u s
  have a: "results (main (example_cfg ''SMTP'') example_html
        [(example_file ''nkelly13'', no_banner_world)]) = [with_status example_record ''SENT'' []]"
    and b: "calls (main (example_cfg ''SMTP'') example_html
        [(example_file ''nkelly13'', no_banner_world)]) =
      [Via_smtp example_record (Some (example_envelope None))]"
    by (simp_all add: main_results main_calls)
  from loop_body_Some [OF p', of example_html no_banner_world] u'
    outlook_attach_raises [OF w(2), of "example_cfg ''OUTLOOK''" example_record example_html]
  have c: "results (main (example_cfg ''OUTLOOK'') example_html
        [(example_file ''nkelly13'', no_banner_world)]) =
      [with_status example_record ''FAILED'' ''See log'']"
    and d: "calls (main (example_cfg ''OUTLOOK'') example_html
        [(example_file ''nkelly13'', no_banner_world)]) = [Via_outlook example_record None]"
    by (simp_all add: main_results main_calls)
  from w a b c d show ?thesis by simp
qed


end
